theory Spec2Isabelle
  imports Complex_Main
begin

section \<open>Double-precision values\<close>

text \<open>
  The joint modules compute with C++ \<^verbatim>\<open>double\<close>. A double is modelled by the value it
  denotes: a NaN, an infinity, the negative zero, or a finite real (\<open>Finite 0\<close> is the
  positive zero). Every IEEE 754 double denotes one of these values; NaN payloads are not
  observable by the code and are identified.
\<close>

datatype double = NaN | NegInf | NegZero | Finite real | PosInf

text \<open>\<^verbatim>\<open>std::isnan\<close>.\<close>

fun isnan :: "double \<Rightarrow> bool" where
  "isnan NaN = True"
| "isnan _ = False"

text \<open>The real number a finite double denotes (both zeros denote 0).\<close>

fun fin :: "double \<Rightarrow> real" where
  "fin (Finite r) = r"
| "fin _ = 0"

text \<open>
  The comparisons \<^verbatim>\<open><=\<close>, \<^verbatim>\<open><\<close> and \<^verbatim>\<open>==\<close> of IEEE 754: every comparison
  with a NaN operand is false, the infinities are the extreme values, and the two zeros
  compare equal.
\<close>

fun dle :: "double \<Rightarrow> double \<Rightarrow> bool" where
  "dle NaN _ = False"
| "dle _ NaN = False"
| "dle NegInf _ = True"
| "dle _ PosInf = True"
| "dle PosInf _ = False"
| "dle _ NegInf = False"
| "dle x y = (fin x \<le> fin y)"

fun dlt :: "double \<Rightarrow> double \<Rightarrow> bool" where
  "dlt NaN _ = False"
| "dlt _ NaN = False"
| "dlt PosInf _ = False"
| "dlt _ NegInf = False"
| "dlt NegInf _ = True"
| "dlt _ PosInf = True"
| "dlt x y = (fin x < fin y)"

definition deq :: "double \<Rightarrow> double \<Rightarrow> bool" where
  "deq x y = (dle x y \<and> dle y x)"

text \<open>
  \<^verbatim>\<open>std::numeric_limits<double>::quiet_NaN()\<close>, \<^verbatim>\<open>lowest()\<close> and \<^verbatim>\<open>max()\<close>:
  the largest finite double is \<open>(2 - 2 ^ -52) * 2 ^ 1023\<close>, that is \<open>2 ^ 1024 - 2 ^ 971\<close>, and
  the lowest is its negation.
\<close>

definition quiet_NaN :: double where
  "quiet_NaN = NaN"

definition double_max :: double where
  "double_max = Finite (2 ^ 1024 - 2 ^ 971)"

definition double_lowest :: double where
  "double_lowest = Finite (- (2 ^ 1024 - 2 ^ 971))"

text \<open>
  The arithmetic of the floating-point unit is a parameter of the model: the three
  operations the joint module uses (\<^verbatim>\<open>*\<close>, \<^verbatim>\<open>/\<close> and binary \<^verbatim>\<open>-\<close> on doubles), with
  whatever rounding they perform. The only property of IEEE 754 arithmetic that a
  theorem below relies on is that an operation with a NaN operand yields a NaN.
\<close>

record fpu =
  fmul :: "double \<Rightarrow> double \<Rightarrow> double"
  fdiv :: "double \<Rightarrow> double \<Rightarrow> double"
  fsub :: "double \<Rightarrow> double \<Rightarrow> double"

definition nan_propagating :: "fpu \<Rightarrow> bool" where
  "nan_propagating ops =
     (\<forall>x y. isnan x \<or> isnan y \<longrightarrow>
        isnan (fmul ops x y) \<and> isnan (fdiv ops x y) \<and> isnan (fsub ops x y))"

text \<open>
  One instance, used to evaluate examples: the exact result of each operation, which is
  what IEEE 754 arithmetic returns whenever the exact result is itself a double. The
  special cases (NaN, infinities, signed zeros) follow IEEE 754.
\<close>

fun is_inf :: "double \<Rightarrow> bool" where
  "is_inf NegInf = True"
| "is_inf PosInf = True"
| "is_inf _ = False"

fun is_zero :: "double \<Rightarrow> bool" where
  "is_zero NegZero = True"
| "is_zero (Finite r) = (r = 0)"
| "is_zero _ = False"

text \<open>The sign bit: true for a negative value and for the negative zero.\<close>

fun signbit :: "double \<Rightarrow> bool" where
  "signbit NegInf = True"
| "signbit NegZero = True"
| "signbit (Finite r) = (r < 0)"
| "signbit _ = False"

definition signed_inf :: "bool \<Rightarrow> double" where
  "signed_inf s = (if s then NegInf else PosInf)"

definition signed_fin :: "bool \<Rightarrow> real \<Rightarrow> double" where
  "signed_fin s r = (if r = 0 \<and> s then NegZero else Finite r)"

definition exact_mul :: "double \<Rightarrow> double \<Rightarrow> double" where
  "exact_mul x y =
     (if isnan x \<or> isnan y then NaN
      else if (is_inf x \<and> is_zero y) \<or> (is_zero x \<and> is_inf y) then NaN
      else if is_inf x \<or> is_inf y then signed_inf (signbit x \<noteq> signbit y)
      else signed_fin (signbit x \<noteq> signbit y) (fin x * fin y))"

definition exact_div :: "double \<Rightarrow> double \<Rightarrow> double" where
  "exact_div x y =
     (if isnan x \<or> isnan y then NaN
      else if (is_inf x \<and> is_inf y) \<or> (is_zero x \<and> is_zero y) then NaN
      else if is_inf x \<or> is_zero y then signed_inf (signbit x \<noteq> signbit y)
      else if is_inf y then signed_fin (signbit x \<noteq> signbit y) 0
      else signed_fin (signbit x \<noteq> signbit y) (fin x / fin y))"

definition exact_sub :: "double \<Rightarrow> double \<Rightarrow> double" where
  "exact_sub x y =
     (if isnan x \<or> isnan y then NaN
      else if is_inf x \<and> is_inf y then (if x = y then NaN else x)
      else if is_inf x then x
      else if is_inf y then signed_inf (\<not> signbit y)
      else signed_fin (x = NegZero \<and> y = Finite 0) (fin x - fin y))"

definition exact_fpu :: fpu where
  "exact_fpu = \<lparr>fmul = exact_mul, fdiv = exact_div, fsub = exact_sub\<rparr>"

section \<open>Measurement kinds, limits and measurement histories\<close>

text \<open>
  Modelled from the spec: the enumeration \<^verbatim>\<open>Measurements\<close> is declared in a header that
  is not among the sources. The spec gives it as the closed enumeration
  \<open>{position, velocity, acceleration, encoder_index}\<close>.
\<close>

datatype Measurements = position | velocity | acceleration | encoder_index

text \<open>
  \<^verbatim>\<open>struct JointLimit\<close>: a pair of doubles. The default constructor sets
  \<^verbatim>\<open>min = lowest()\<close> and \<^verbatim>\<open>max = max()\<close>.
\<close>

record JointLimit =
  min_limit :: double
  max_limit :: double

definition JointLimit_default :: JointLimit where
  "JointLimit_default = \<lparr>min_limit = double_lowest, max_limit = double_max\<rparr>"

text \<open>\<^verbatim>\<open>in_range(value, min, max)\<close>: \<^verbatim>\<open>return min <= value && value < max;\<close>\<close>

definition in_range :: "double \<Rightarrow> double \<Rightarrow> double \<Rightarrow> bool" where
  "in_range v lo hi = (dle lo v \<and> dlt v hi)"

text \<open>
  Modelled from the spec: the measurement history is an external time series, consumed
  through \<^verbatim>\<open>length()\<close>, \<^verbatim>\<open>newest_element()\<close> and \<^verbatim>\<open>newest_timeindex()\<close>. It is
  modelled as the list of retained samples, oldest first, each with its logical time
  index (a \<^verbatim>\<open>long int\<close>, on which the code does no arithmetic). The two \<open>newest\<close>
  accessors are only called on a non-empty history.
\<close>

type_synonym history = "(int \<times> double) list"

definition newest_element :: "history \<Rightarrow> double" where
  "newest_element h = snd (last h)"

definition newest_timeindex :: "history \<Rightarrow> int" where
  "newest_timeindex h = fst (last h)"

section \<open>The encoder joint module\<close>

text \<open>
  The fields of \<^verbatim>\<open>EncoderJointModule\<close> (the source's names, without the trailing
  underscore). \<open>encoder\<close> is what \<^verbatim>\<open>encoder_->get_measurement(id)\<close> returns for each
  kind; \<open>limits\<close> is the map from kind to limit; \<open>limit_door\<close> is the mutex guarding
  it, true when it is held.
\<close>

record EncoderJointModule =
  joint_id :: int
  encoder :: "Measurements \<Rightarrow> history"
  gear_ratio :: double
  zero_angle :: double
  polarity :: double
  limits :: "Measurements \<rightharpoonup> JointLimit"
  limit_door :: bool

definition set_zero_angle :: "double \<Rightarrow> EncoderJointModule \<Rightarrow> EncoderJointModule" where
  "set_zero_angle z m = m\<lparr>zero_angle := z\<rparr>"

definition set_joint_polarity :: "bool \<Rightarrow> EncoderJointModule \<Rightarrow> EncoderJointModule" where
  "set_joint_polarity reverse_polarity m =
     m\<lparr>polarity := (if reverse_polarity then Finite (- 1) else Finite 1)\<rparr>"

text \<open>
  The constructor: it stores its arguments (the polarity as \<open>\<plusminus>1.0\<close>), then calls
  \<^verbatim>\<open>set_zero_angle\<close>. The limit map starts empty and the mutex free. No argument is
  checked.
\<close>

definition new_EncoderJointModule ::
  "int \<Rightarrow> (Measurements \<Rightarrow> history) \<Rightarrow> double \<Rightarrow> double \<Rightarrow> bool \<Rightarrow> EncoderJointModule" where
  "new_EncoderJointModule jid enc gear zero reverse_polarity =
     set_zero_angle zero
       \<lparr>joint_id = jid, encoder = enc, gear_ratio = gear, zero_angle = Finite 0,
        polarity = (if reverse_polarity then Finite (- 1) else Finite 1),
        limits = Map.empty, limit_door = False\<rparr>"

definition get_joint_measurement :: "fpu \<Rightarrow> EncoderJointModule \<Rightarrow> Measurements \<Rightarrow> double" where
  "get_joint_measurement ops m measurement_id =
     (let measurement_history = encoder m measurement_id in
      if length measurement_history = 0 then quiet_NaN
      else fmul ops (polarity m) (newest_element measurement_history))"

definition get_joint_measurement_index :: "EncoderJointModule \<Rightarrow> Measurements \<Rightarrow> int" where
  "get_joint_measurement_index m measurement_id =
     (let measurement_history = encoder m measurement_id in
      if length measurement_history = 0 then - 1
      else newest_timeindex measurement_history)"

definition get_measured_angle :: "fpu \<Rightarrow> EncoderJointModule \<Rightarrow> double" where
  "get_measured_angle ops m =
     fsub ops (fdiv ops (get_joint_measurement ops m position) (gear_ratio m)) (zero_angle m)"

definition get_measured_velocity :: "fpu \<Rightarrow> EncoderJointModule \<Rightarrow> double" where
  "get_measured_velocity ops m =
     fdiv ops (get_joint_measurement ops m velocity) (gear_ratio m)"

definition get_measured_acceleration :: "fpu \<Rightarrow> EncoderJointModule \<Rightarrow> double" where
  "get_measured_acceleration ops m =
     fdiv ops (get_joint_measurement ops m acceleration) (gear_ratio m)"

definition get_measured_index_angle :: "fpu \<Rightarrow> EncoderJointModule \<Rightarrow> double" where
  "get_measured_index_angle ops m =
     fdiv ops (get_joint_measurement ops m encoder_index) (gear_ratio m)"

definition get_zero_angle :: "EncoderJointModule \<Rightarrow> double" where
  "get_zero_angle m = zero_angle m"

section \<open>The limit table and its lock\<close>

text \<open>
  \<^verbatim>\<open>limits_.at(index)\<close> throws \<^verbatim>\<open>std::out_of_range\<close> when the map has no entry for
  the key.
\<close>

datatype error = out_of_range

text \<open>
  What a call of a member function that takes the lock does: it returns a value, or
  leaves by an exception, in both cases with the module in some state; or it never
  returns, because \<^verbatim>\<open>limit_door_.lock()\<close> waits for a mutex that is held.
\<close>

datatype 'a outcome =
    Returns 'a EncoderJointModule
  | Throws error EncoderJointModule
  | Blocks

text \<open>\<^verbatim>\<open>limit_door_.lock()\<close> (\<open>None\<close>: the mutex is held, the call waits) and
  \<^verbatim>\<open>limit_door_.unlock()\<close>.\<close>

definition lock :: "EncoderJointModule \<Rightarrow> EncoderJointModule option" where
  "lock m = (if limit_door m then None else Some (m\<lparr>limit_door := True\<rparr>))"

definition unlock :: "EncoderJointModule \<Rightarrow> EncoderJointModule" where
  "unlock m = m\<lparr>limit_door := False\<rparr>"

text \<open>
  \<^verbatim>\<open>
  limit_door_.lock();
  limits_[index] = limit;
  limit_door_.unlock();
  \<close>
\<close>

definition set_limit :: "Measurements \<Rightarrow> JointLimit \<Rightarrow> EncoderJointModule \<Rightarrow> unit outcome" where
  "set_limit index limit m =
     (case lock m of
        None \<Rightarrow> Blocks
      | Some m1 \<Rightarrow>
          let m2 = m1\<lparr>limits := (limits m1)(index \<mapsto> limit)\<rparr>
          in Returns () (unlock m2))"

text \<open>
  \<^verbatim>\<open>
  limit_door_.lock();
  return limits_.at(index);
  limit_door_.unlock();
  \<close>
  The \<^verbatim>\<open>return\<close> statement leaves the function, by the value or by the exception of
  \<^verbatim>\<open>at\<close>; the \<^verbatim>\<open>unlock\<close> after it is never executed.
\<close>

definition get_limit :: "Measurements \<Rightarrow> EncoderJointModule \<Rightarrow> JointLimit outcome" where
  "get_limit index m =
     (case lock m of
        None \<Rightarrow> Blocks
      | Some m1 \<Rightarrow>
          (case limits m1 index of
             None \<Rightarrow> Throws out_of_range m1
           | Some l \<Rightarrow> Returns l m1))"

text \<open>
  The entries of the limit map, in the order the loop of \<^verbatim>\<open>check_limits\<close> visits them.
  The container's declaration is not among the sources; the entries are listed by kind.
  Lemma \<open>check_limits_loop_list_all\<close> shows that the order does not matter.
\<close>

definition limit_entries :: "(Measurements \<rightharpoonup> JointLimit) \<Rightarrow> (Measurements \<times> JointLimit) list" where
  "limit_entries tbl =
     List.map_filter (\<lambda>k. map_option (Pair k) (tbl k))
       [position, velocity, acceleration, encoder_index]"

text \<open>The \<^verbatim>\<open>switch\<close> of \<^verbatim>\<open>check_limits\<close>, with its \<^verbatim>\<open>default\<close> branch.\<close>

definition switch_meassurement :: "fpu \<Rightarrow> EncoderJointModule \<Rightarrow> Measurements \<Rightarrow> double" where
  "switch_meassurement ops m meassurement_id =
     (case meassurement_id of
        position \<Rightarrow> get_measured_angle ops m
      | velocity \<Rightarrow> get_measured_velocity ops m
      | acceleration \<Rightarrow> get_measured_acceleration ops m
      | _ \<Rightarrow> Finite 0)"

text \<open>The loop over the entries, carrying \<^verbatim>\<open>valid\<close>.\<close>

fun check_limits_loop ::
  "fpu \<Rightarrow> EncoderJointModule \<Rightarrow> (Measurements \<times> JointLimit) list \<Rightarrow> bool \<Rightarrow> bool" where
  "check_limits_loop ops m [] valid = valid"
| "check_limits_loop ops m ((meassurement_id, joint_limit) # rest) valid =
     (let meassurement = switch_meassurement ops m meassurement_id in
      check_limits_loop ops m rest
        (if \<not> (isnan meassurement \<and> meassurement_id = acceleration)
         then valid \<and> in_range meassurement (min_limit joint_limit) (max_limit joint_limit)
         else valid))"

definition check_limits :: "fpu \<Rightarrow> EncoderJointModule \<Rightarrow> bool outcome" where
  "check_limits ops m =
     (case lock m of
        None \<Rightarrow> Blocks
      | Some m1 \<Rightarrow>
          let valid = check_limits_loop ops m1 (limit_entries (limits m1)) True
          in Returns valid (unlock m1))"

section \<open>What the specification asks of the limit check\<close>

text \<open>
  The calibrated measurement of each kind, and the check the specification describes:
  every configured limit holds \<open>min \<le> value < max\<close>, except an acceleration limit
  whose measurement is NaN.
\<close>

definition calibrated_value :: "fpu \<Rightarrow> EncoderJointModule \<Rightarrow> Measurements \<Rightarrow> double" where
  "calibrated_value ops m k =
     (case k of
        position \<Rightarrow> get_measured_angle ops m
      | velocity \<Rightarrow> get_measured_velocity ops m
      | acceleration \<Rightarrow> get_measured_acceleration ops m
      | encoder_index \<Rightarrow> get_measured_index_angle ops m)"

definition limit_satisfied :: "fpu \<Rightarrow> EncoderJointModule \<Rightarrow> Measurements \<Rightarrow> bool" where
  "limit_satisfied ops m k =
     (case limits m k of
        None \<Rightarrow> True
      | Some l \<Rightarrow>
          (k = acceleration \<and> isnan (calibrated_value ops m k)) \<or>
          (dle (min_limit l) (calibrated_value ops m k) \<and>
           dlt (calibrated_value ops m k) (max_limit l)))"

definition all_limits_satisfied :: "fpu \<Rightarrow> EncoderJointModule \<Rightarrow> bool" where
  "all_limits_satisfied ops m =
     (limit_satisfied ops m position \<and> limit_satisfied ops m velocity \<and>
      limit_satisfied ops m acceleration \<and> limit_satisfied ops m encoder_index)"

section \<open>The joint registry\<close>

text \<open>
  The fields of \<^verbatim>\<open>class Monopod\<close> that the batch operations read. Joint indexes are
  C++ \<^verbatim>\<open>int\<close>s, on which the code does no arithmetic.

  Modelled from the spec: \<^verbatim>\<open>MotorJointModule\<close> is not among the sources. Of the map
  \<^verbatim>\<open>motors_\<close> the model keeps, for each joint that has a motor module, the per-joint
  command slot the spec speaks of (the torque target).
\<close>

record Monopod =
  is_initialized :: bool
  write_joint_indexing :: "int list"
  read_joint_indexing :: "int list"
  motors :: "int \<rightharpoonup> double"

text \<open>\<^verbatim>\<open>Contains(Vec, Element)\<close>: \<^verbatim>\<open>std::find\<close> finds the element in the vector.\<close>

definition Contains :: "'a list \<Rightarrow> 'a \<Rightarrow> bool" where
  "Contains Vec Element = (Element \<in> set Vec)"

text \<open>
  The loop of \<^verbatim>\<open>getJointDataSerialized\<close>: each index is checked, then its datum is
  pushed to \<^verbatim>\<open>data\<close>; the first index that fails the check ends the call with
  \<^verbatim>\<open>std::nullopt\<close>.
\<close>

fun getJointDataSerialized_loop ::
  "Monopod \<Rightarrow> (int \<Rightarrow> double) \<Rightarrow> int list \<Rightarrow> double list \<Rightarrow> double list option" where
  "getJointDataSerialized_loop self getJointData [] data = Some data"
| "getJointDataSerialized_loop self getJointData (joint_index # rest) data =
     (if is_initialized self \<and> Contains (read_joint_indexing self) joint_index
      then getJointDataSerialized_loop self getJointData rest (data @ [getJointData joint_index])
      else None)"

text \<open>
  \<^verbatim>\<open>getJointDataSerialized(monopod, joint_indexes, getJointData)\<close>, a member function:
  \<open>self\<close> is the object it is called on. The default order is read from
  \<^verbatim>\<open>monopod\<close>, the checks from the object itself.
\<close>

definition getJointDataSerialized ::
  "Monopod \<Rightarrow> Monopod \<Rightarrow> int list \<Rightarrow> (int \<Rightarrow> double) \<Rightarrow> double list option" where
  "getJointDataSerialized self monopod joint_indexes getJointData =
     (let jointSerialization =
            (if joint_indexes = [] then read_joint_indexing monopod else joint_indexes)
      in getJointDataSerialized_loop self getJointData jointSerialization [])"

text \<open>
  Modelled from the spec: the bodies of \<^verbatim>\<open>is_joint_controllable\<close>,
  \<^verbatim>\<open>set_torque_target\<close> and \<^verbatim>\<open>set_torque_targets\<close> are not among the sources
  (only their declarations are). The spec: \<open>is_joint_controllable(index)\<close> is a
  membership test against the writable set; the setters write into the per-joint command
  slot of the addressed joint modules and return false if the system is uninitialized or
  any index is not controllable, all-or-nothing: every index is validated before any
  module's command state is mutated; with no (or an empty) index list they use
  \<open>write_joint_indexing\<close>. The spec does not say how values and indexes of different
  lengths are paired; the model pairs them by position.
\<close>

definition is_joint_controllable :: "Monopod \<Rightarrow> int \<Rightarrow> bool" where
  "is_joint_controllable self joint_index = Contains (write_joint_indexing self) joint_index"

definition write_torque_target :: "double \<times> int \<Rightarrow> Monopod \<Rightarrow> Monopod" where
  "write_torque_target vi self = self\<lparr>motors := (motors self)(snd vi \<mapsto> fst vi)\<rparr>"

definition set_torque_target :: "double \<Rightarrow> int \<Rightarrow> Monopod \<Rightarrow> bool \<times> Monopod" where
  "set_torque_target torque_target joint_index self =
     (if is_initialized self \<and> is_joint_controllable self joint_index
      then (True, write_torque_target (torque_target, joint_index) self)
      else (False, self))"

definition set_torque_targets :: "double list \<Rightarrow> int list \<Rightarrow> Monopod \<Rightarrow> bool \<times> Monopod" where
  "set_torque_targets torque_targets joint_indexes self =
     (let jointSerialization =
            (if joint_indexes = [] then write_joint_indexing self else joint_indexes)
      in if is_initialized self \<and> list_all (is_joint_controllable self) jointSerialization
         then (True, fold write_torque_target (zip torque_targets jointSerialization) self)
         else (False, self))"

section \<open>Examples\<close>

text \<open>
  An encoder that holds one sample per channel (position 0.5, velocity 0.25,
  acceleration 2.0, index angle 1.5), and modules as \<^verbatim>\<open>create_encoder_module\<close> builds
  them: gear ratio 1.0, zero angle 0.0, normal polarity.
\<close>

definition sample_encoder :: "Measurements \<Rightarrow> history" where
  "sample_encoder k =
     (case k of
        position \<Rightarrow> [(0, Finite (1 / 2))]
      | velocity \<Rightarrow> [(0, Finite (1 / 4))]
      | acceleration \<Rightarrow> [(0, Finite 2)]
      | encoder_index \<Rightarrow> [(0, Finite (3 / 2))])"

definition sample_module :: EncoderJointModule where
  "sample_module = new_EncoderJointModule 0 sample_encoder (Finite 1) (Finite 0) False"

text \<open>A module whose encoder has no sample yet.\<close>

definition unsampled_module :: EncoderJointModule where
  "unsampled_module = new_EncoderJointModule 0 (\<lambda>k. []) (Finite 1) (Finite 0) False"

text \<open>
  No acceleration sample; limits \<open>[0, 1)\<close> on the position and on the acceleration.
\<close>

definition limited_module :: EncoderJointModule where
  "limited_module = sample_module
     \<lparr>encoder := sample_encoder(acceleration := []),
      limits := [position \<mapsto> \<lparr>min_limit = Finite 0, max_limit = Finite 1\<rparr>,
                 acceleration \<mapsto> \<lparr>min_limit = Finite 0, max_limit = Finite 1\<rparr>]\<rparr>"

text \<open>A velocity limit with \<open>min = max = 0.25\<close>, the measured velocity.\<close>

definition boundary_module :: EncoderJointModule where
  "boundary_module = sample_module
     \<lparr>limits := [velocity \<mapsto> \<lparr>min_limit = Finite (1 / 4), max_limit = Finite (1 / 4)\<rparr>]\<rparr>"

text \<open>A limit \<open>[1, 2)\<close> on the index angle, which measures 1.5.\<close>

definition index_limited_module :: EncoderJointModule where
  "index_limited_module = sample_module
     \<lparr>limits := [encoder_index \<mapsto> \<lparr>min_limit = Finite 1, max_limit = Finite 2\<rparr>]\<rparr>"

text \<open>A module constructed with gear ratio 0.0.\<close>

definition zero_gear_module :: EncoderJointModule where
  "zero_gear_module = new_EncoderJointModule 0 sample_encoder (Finite 0) (Finite 0) False"

text \<open>
  A registry before \<^verbatim>\<open>initialize()\<close>, and the registry of the spec's scenario: joint 0
  readable and controllable, joint 1 readable only.
\<close>

definition fresh_monopod :: Monopod where
  "fresh_monopod =
     \<lparr>is_initialized = False, write_joint_indexing = [], read_joint_indexing = [],
      motors = Map.empty\<rparr>"

definition two_joint_monopod :: Monopod where
  "two_joint_monopod =
     \<lparr>is_initialized = True, write_joint_indexing = [0], read_joint_indexing = [0, 1],
      motors = [0 \<mapsto> Finite 0]\<rparr>"

section \<open>Auxiliary definitions for the proofs\<close>

text \<open>What the loop of \<^verbatim>\<open>check_limits\<close> asks of one entry, and of one kind.\<close>

definition entry_ok :: "fpu \<Rightarrow> EncoderJointModule \<Rightarrow> Measurements \<times> JointLimit \<Rightarrow> bool" where
  "entry_ok ops m e =
     ((isnan (switch_meassurement ops m (fst e)) \<and> fst e = acceleration) \<or>
      in_range (switch_meassurement ops m (fst e)) (min_limit (snd e)) (max_limit (snd e)))"

definition entry_check :: "fpu \<Rightarrow> EncoderJointModule \<Rightarrow> Measurements \<Rightarrow> bool" where
  "entry_check ops m k = (case limits m k of None \<Rightarrow> True | Some l \<Rightarrow> entry_ok ops m (k, l))"

text \<open>The index list a batch call iterates.\<close>

definition effective_indexes :: "int list \<Rightarrow> int list \<Rightarrow> int list" where
  "effective_indexes default_indexing joint_indexes =
     (if joint_indexes = [] then default_indexing else joint_indexes)"

section \<open>Properties of the doubles\<close>

lemma isnan_iff: "isnan x \<longleftrightarrow> x = NaN"
  by (cases x) simp_all

lemma dle_not_nan: "dle x y \<Longrightarrow> x \<noteq> NaN \<and> y \<noteq> NaN"
  by (cases x; cases y) simp_all

lemma deq_not_dlt: "deq a b \<Longrightarrow> deq b c \<Longrightarrow> \<not> dlt c a"
  by (cases a; cases b; cases c) (simp_all add: deq_def)

lemma exact_fpu_nan_propagating: "nan_propagating exact_fpu"
  by (simp add: nan_propagating_def exact_fpu_def exact_mul_def exact_div_def exact_sub_def)

section \<open>The loop of the limit check\<close>

lemma check_limits_loop_list_all:
  "check_limits_loop ops m es valid = (valid \<and> list_all (entry_ok ops m) es)"
proof (induction es arbitrary: valid)
  case Nil
  show ?case by simp
next
  case (Cons e es)
  obtain k l where e: "e = (k, l)" by (cases e)
  have ok: "entry_ok ops m (k, l) \<longleftrightarrow>
      (isnan (switch_meassurement ops m k) \<and> k = acceleration) \<or>
      in_range (switch_meassurement ops m k) (min_limit l) (max_limit l)"
    by (simp add: entry_ok_def)
  have "check_limits_loop ops m (e # es) valid =
      ((if \<not> (isnan (switch_meassurement ops m k) \<and> k = acceleration)
        then valid \<and> in_range (switch_meassurement ops m k) (min_limit l) (max_limit l)
        else valid) \<and> list_all (entry_ok ops m) es)"
    unfolding e check_limits_loop.simps Let_def Cons.IH ..
  also have "\<dots> = (valid \<and> entry_ok ops m (k, l) \<and> list_all (entry_ok ops m) es)"
    unfolding ok by (cases "isnan (switch_meassurement ops m k) \<and> k = acceleration") auto
  finally show ?case
    by (simp add: e)
qed

lemma check_limits_loop_order:
  "set es = set es' \<Longrightarrow> check_limits_loop ops m es valid = check_limits_loop ops m es' valid"
  by (simp add: check_limits_loop_list_all list_all_iff)

section \<open>Evaluation of the examples\<close>

lemmas module_defs =
  sample_module_def unsampled_module_def limited_module_def boundary_module_def
  index_limited_module_def zero_gear_module_def new_EncoderJointModule_def
  set_zero_angle_def sample_encoder_def

lemmas monopod_defs = fresh_monopod_def two_joint_monopod_def

lemmas getter_defs =
  calibrated_value_def get_measured_angle_def get_measured_velocity_def
  get_measured_acceleration_def get_measured_index_angle_def get_joint_measurement_def
  get_joint_measurement_index_def newest_element_def newest_timeindex_def quiet_NaN_def

lemmas exact_defs =
  exact_fpu_def exact_mul_def exact_div_def exact_sub_def signed_fin_def signed_inf_def

lemma limited_module_values:
  "get_measured_angle exact_fpu limited_module = Finite (1 / 2)"
  "get_measured_acceleration exact_fpu limited_module = NaN"
  by (simp_all add: module_defs getter_defs exact_defs)

lemma boundary_module_velocity:
  "get_measured_velocity exact_fpu boundary_module = Finite (1 / 4)"
  by (simp add: module_defs getter_defs exact_defs)

section \<open>The lock and the loop together\<close>

lemma lock_free: "\<not> limit_door m \<Longrightarrow> lock m = Some (m\<lparr>limit_door := True\<rparr>)"
  by (simp add: lock_def)

lemma unlock_lock: "\<not> limit_door m \<Longrightarrow> unlock (m\<lparr>limit_door := True\<rparr>) = m"
  by (simp add: unlock_def)

lemma get_joint_measurement_door [simp]:
  "get_joint_measurement ops (m\<lparr>limit_door := b\<rparr>) k = get_joint_measurement ops m k"
  by (simp add: get_joint_measurement_def Let_def)

lemma switch_meassurement_door [simp]:
  "switch_meassurement ops (m\<lparr>limit_door := b\<rparr>) k = switch_meassurement ops m k"
  by (cases k)
     (simp_all add: switch_meassurement_def get_measured_angle_def get_measured_velocity_def
        get_measured_acceleration_def)

lemma entry_ok_door [simp]: "entry_ok ops (m\<lparr>limit_door := b\<rparr>) = entry_ok ops m"
  by (rule ext) (simp add: entry_ok_def)

lemma list_all_limit_entries:
  "list_all P (limit_entries tbl) =
     ((case tbl position of None \<Rightarrow> True | Some l \<Rightarrow> P (position, l)) \<and>
      (case tbl velocity of None \<Rightarrow> True | Some l \<Rightarrow> P (velocity, l)) \<and>
      (case tbl acceleration of None \<Rightarrow> True | Some l \<Rightarrow> P (acceleration, l)) \<and>
      (case tbl encoder_index of None \<Rightarrow> True | Some l \<Rightarrow> P (encoder_index, l)))"
  by (simp add: limit_entries_def map_filter_simps split: option.splits)

lemma check_limits_returns:
  assumes "\<not> limit_door m"
  shows "check_limits ops m =
     Returns (entry_check ops m position \<and> entry_check ops m velocity \<and>
              entry_check ops m acceleration \<and> entry_check ops m encoder_index) m"
  using assms
  by (simp add: check_limits_def lock_free unlock_lock check_limits_loop_list_all
      list_all_limit_entries entry_check_def)

lemma entry_check_configured:
  "k \<noteq> encoder_index \<Longrightarrow> entry_check ops m k = limit_satisfied ops m k"
  by (cases k)
     (auto simp: entry_check_def limit_satisfied_def entry_ok_def in_range_def
        switch_meassurement_def calibrated_value_def split: option.splits)

lemma entry_check_unset: "limits m k = None \<Longrightarrow> entry_check ops m k"
  by (simp add: entry_check_def)

lemma limit_satisfied_unset: "limits m k = None \<Longrightarrow> limit_satisfied ops m k"
  by (simp add: limit_satisfied_def)

lemma boundary_not_satisfied:
  assumes "limits m k = Some l" and "deq (max_limit l) (min_limit l)"
    and "deq (min_limit l) (calibrated_value ops m k)"
  shows "\<not> limit_satisfied ops m k"
proof -
  have "\<not> dlt (calibrated_value ops m k) (max_limit l)"
    using assms(2,3) by (rule deq_not_dlt)
  moreover have "\<not> isnan (calibrated_value ops m k)"
    using assms(3) dle_not_nan [of "min_limit l" "calibrated_value ops m k"]
    by (simp add: deq_def isnan_iff)
  ultimately show ?thesis
    using assms(1) by (simp add: limit_satisfied_def)
qed

lemma nan_acceleration_satisfied:
  "isnan (get_measured_acceleration ops m) \<Longrightarrow> limit_satisfied ops m acceleration"
  by (simp add: limit_satisfied_def calibrated_value_def split: option.splits)

section \<open>The limit check\<close>

text \<open>
  Claim C1. For a joint module whose limit table has limits for position, velocity
  and/or acceleration only, \<^verbatim>\<open>check_limits()\<close>, called with the lock free, returns
  true if and only if each configured limit, except an acceleration limit whose
  measurement is NaN, holds \<open>min \<le> value < max\<close> of the calibrated value. In
  particular a limit with \<open>max == min == value\<close> makes the check return false, and
  when the acceleration measurement is NaN the result is decided by the position and
  velocity limits alone.
\<close>

theorem check_limits_iff_configured_limits_hold:
  assumes "\<not> limit_door m" and "limits m encoder_index = None"
  shows "check_limits ops m = Returns (all_limits_satisfied ops m) m \<and>
         (\<forall>k l. limits m k = Some l \<and> deq (max_limit l) (min_limit l) \<and>
                deq (min_limit l) (calibrated_value ops m k)
                \<longrightarrow> check_limits ops m = Returns False m) \<and>
         (isnan (get_measured_acceleration ops m)
            \<longrightarrow> check_limits ops m =
                Returns (limit_satisfied ops m position \<and> limit_satisfied ops m velocity) m)"
proof -
  have ret: "check_limits ops m = Returns (all_limits_satisfied ops m) m"
    using assms
    by (simp add: check_limits_returns entry_check_configured entry_check_unset
        limit_satisfied_unset all_limits_satisfied_def)
  have boundary: "check_limits ops m = Returns False m"
    if "limits m k = Some l" "deq (max_limit l) (min_limit l)"
       "deq (min_limit l) (calibrated_value ops m k)" for k l
  proof -
    have "\<not> limit_satisfied ops m k"
      using that by (rule boundary_not_satisfied)
    then have "\<not> all_limits_satisfied ops m"
      by (cases k) (simp_all add: all_limits_satisfied_def)
    then show ?thesis
      by (simp add: ret)
  qed
  have nan_acc: "check_limits ops m =
      Returns (limit_satisfied ops m position \<and> limit_satisfied ops m velocity) m"
    if "isnan (get_measured_acceleration ops m)"
    using that assms(2)
    by (simp add: ret all_limits_satisfied_def nan_acceleration_satisfied
        limit_satisfied_unset)
  show ?thesis
    using ret boundary nan_acc by blast
qed

theorem check_limits_iff_configured_limits_hold_witness:
  "\<not> limit_door limited_module \<and> limits limited_module encoder_index = None \<and>
   isnan (get_measured_acceleration exact_fpu limited_module) \<and>
   check_limits exact_fpu limited_module = Returns True limited_module \<and>
   \<not> limit_door boundary_module \<and> limits boundary_module encoder_index = None \<and>
   check_limits exact_fpu boundary_module = Returns False boundary_module"
proof -
  have free: "\<not> limit_door limited_module" "limits limited_module encoder_index = None"
    by (simp_all add: module_defs)
  have tbl: "limits limited_module position = Some \<lparr>min_limit = Finite 0, max_limit = Finite 1\<rparr>"
    "limits limited_module velocity = None"
    "limits limited_module acceleration = Some \<lparr>min_limit = Finite 0, max_limit = Finite 1\<rparr>"
    by (simp_all add: module_defs)
  have sat: "all_limits_satisfied exact_fpu limited_module"
    by (simp add: all_limits_satisfied_def limit_satisfied_def calibrated_value_def
        limited_module_values tbl free)
  have free': "\<not> limit_door boundary_module" "limits boundary_module encoder_index = None"
    by (simp_all add: module_defs)
  have lim: "limits boundary_module velocity =
      Some \<lparr>min_limit = Finite (1 / 4), max_limit = Finite (1 / 4)\<rparr>"
    by (simp add: module_defs)
  have eq: "deq (Finite (1 / 4)) (Finite (1 / 4))"
    by (simp add: deq_def)
  have "check_limits exact_fpu limited_module = Returns True limited_module"
    using check_limits_iff_configured_limits_hold [OF free, of exact_fpu] sat by simp
  moreover have "check_limits exact_fpu boundary_module = Returns False boundary_module"
  proof -
    let ?l = "\<lparr>min_limit = Finite (1 / 4), max_limit = Finite (1 / 4)\<rparr>"
    have "limits boundary_module velocity = Some ?l \<and> deq (max_limit ?l) (min_limit ?l) \<and>
        deq (min_limit ?l) (calibrated_value exact_fpu boundary_module velocity)
        \<longrightarrow> check_limits exact_fpu boundary_module = Returns False boundary_module"
      using check_limits_iff_configured_limits_hold [OF free', of exact_fpu] by blast
    then show ?thesis
      by (simp add: lim eq calibrated_value_def boundary_module_velocity)
  qed
  ultimately show ?thesis
    using free free' by (simp add: limited_module_values)
qed

text \<open>
  Claim C10. With an empty limit table, \<^verbatim>\<open>check_limits()\<close>, called with the lock
  free, returns true, whatever the measurement histories and the calibration are.
\<close>

theorem check_limits_empty_table:
  assumes "limits m = Map.empty" and "\<not> limit_door m"
  shows "check_limits ops m = Returns True m"
  using assms by (simp add: check_limits_returns entry_check_unset)

theorem check_limits_empty_table_witness:
  "limits sample_module = Map.empty \<and> \<not> limit_door sample_module \<and>
   check_limits exact_fpu sample_module = Returns True sample_module"
  using check_limits_empty_table [of sample_module exact_fpu]
  by (simp add: module_defs)

section \<open>The calibrated getters\<close>

lemma get_joint_measurement_nonempty:
  "encoder m k \<noteq> [] \<Longrightarrow>
   get_joint_measurement ops m k = fmul ops (polarity m) (newest_element (encoder m k))"
  by (simp add: get_joint_measurement_def Let_def)

lemma get_joint_measurement_empty:
  "encoder m k = [] \<Longrightarrow> get_joint_measurement ops m k = NaN"
  by (simp add: get_joint_measurement_def quiet_NaN_def)

lemma nan_propagatingD:
  assumes "nan_propagating ops"
  shows "isnan (fdiv ops NaN y)" and "isnan (fsub ops NaN y)"
  using assms by (simp_all add: nan_propagating_def)

lemma sample_module_values:
  "get_measured_angle exact_fpu sample_module = Finite (1 / 2)"
  "get_measured_velocity exact_fpu sample_module = Finite (1 / 4)"
  "get_measured_acceleration exact_fpu sample_module = Finite 2"
  "get_measured_index_angle exact_fpu sample_module = Finite (3 / 2)"
  by (simp_all add: module_defs getter_defs exact_defs)

text \<open>
  Claim C2. On a channel with a non-empty history, the calibrated getter returns
  \<open>polarity * raw_newest / gear_ratio\<close>, where \<open>raw_newest\<close> is the newest element
  of the channel's history, and \<^verbatim>\<open>get_measured_angle()\<close> subtracts \<open>zero_angle\<close> from
  it. The getters are functions of the module's state and return nothing but the value.
\<close>

theorem calibrated_getters_formula:
  "(encoder m position \<noteq> [] \<longrightarrow>
      get_measured_angle ops m =
        fsub ops
          (fdiv ops (fmul ops (polarity m) (newest_element (encoder m position)))
             (gear_ratio m))
          (zero_angle m)) \<and>
   (encoder m velocity \<noteq> [] \<longrightarrow>
      get_measured_velocity ops m =
        fdiv ops (fmul ops (polarity m) (newest_element (encoder m velocity))) (gear_ratio m)) \<and>
   (encoder m acceleration \<noteq> [] \<longrightarrow>
      get_measured_acceleration ops m =
        fdiv ops (fmul ops (polarity m) (newest_element (encoder m acceleration)))
          (gear_ratio m)) \<and>
   (encoder m encoder_index \<noteq> [] \<longrightarrow>
      get_measured_index_angle ops m =
        fdiv ops (fmul ops (polarity m) (newest_element (encoder m encoder_index)))
          (gear_ratio m))"
  by (simp add: get_measured_angle_def get_measured_velocity_def
      get_measured_acceleration_def get_measured_index_angle_def
      get_joint_measurement_nonempty)

theorem calibrated_getters_formula_witness:
  "encoder sample_module position \<noteq> [] \<and> encoder sample_module velocity \<noteq> [] \<and>
   encoder sample_module acceleration \<noteq> [] \<and> encoder sample_module encoder_index \<noteq> [] \<and>
   get_measured_angle exact_fpu sample_module = Finite (1 / 2) \<and>
   get_measured_velocity exact_fpu sample_module = Finite (1 / 4) \<and>
   get_measured_acceleration exact_fpu sample_module = Finite 2 \<and>
   get_measured_index_angle exact_fpu sample_module = Finite (3 / 2)"
  using calibrated_getters_formula [of sample_module exact_fpu]
  by (simp add: module_defs newest_element_def exact_defs)

text \<open>
  Claim C5. On a channel with an empty history the four calibrated getters return NaN
  and \<^verbatim>\<open>get_joint_measurement_index\<close> returns -1; on a channel with a non-empty history
  \<^verbatim>\<open>get_joint_measurement_index\<close> returns the newest time index of the channel.
\<close>

theorem empty_history_signals:
  assumes "nan_propagating ops"
  shows "(encoder m position = [] \<longrightarrow> isnan (get_measured_angle ops m)) \<and>
         (encoder m velocity = [] \<longrightarrow> isnan (get_measured_velocity ops m)) \<and>
         (encoder m acceleration = [] \<longrightarrow> isnan (get_measured_acceleration ops m)) \<and>
         (encoder m encoder_index = [] \<longrightarrow> isnan (get_measured_index_angle ops m)) \<and>
         (\<forall>k. encoder m k = [] \<longrightarrow> get_joint_measurement_index m k = - 1) \<and>
         (\<forall>k. encoder m k \<noteq> [] \<longrightarrow>
              get_joint_measurement_index m k = newest_timeindex (encoder m k))"
proof -
  have angle: "isnan (get_measured_angle ops m)" if "encoder m position = []"
  proof -
    have "fdiv ops NaN (gear_ratio m) = NaN"
      using nan_propagatingD(1) [OF assms] by (simp add: isnan_iff)
    then show ?thesis
      using that nan_propagatingD(2) [OF assms]
      by (simp add: get_measured_angle_def get_joint_measurement_empty)
  qed
  have others: "isnan (fdiv ops (get_joint_measurement ops m k) (gear_ratio m))"
    if "encoder m k = []" for k
    using that nan_propagatingD(1) [OF assms] by (simp add: get_joint_measurement_empty)
  have index: "get_joint_measurement_index m k =
      (if encoder m k = [] then - 1 else newest_timeindex (encoder m k))" for k
    by (simp add: get_joint_measurement_index_def Let_def)
  show ?thesis
    using angle others index
    by (simp add: get_measured_velocity_def get_measured_acceleration_def
        get_measured_index_angle_def)
qed

theorem empty_history_signals_witness:
  "nan_propagating exact_fpu \<and>
   encoder unsampled_module position = [] \<and> encoder unsampled_module velocity = [] \<and>
   encoder unsampled_module acceleration = [] \<and>
   encoder unsampled_module encoder_index = [] \<and>
   isnan (get_measured_angle exact_fpu unsampled_module) \<and>
   isnan (get_measured_velocity exact_fpu unsampled_module) \<and>
   isnan (get_measured_acceleration exact_fpu unsampled_module) \<and>
   isnan (get_measured_index_angle exact_fpu unsampled_module) \<and>
   get_joint_measurement_index unsampled_module velocity = - 1 \<and>
   encoder sample_module velocity \<noteq> [] \<and>
   get_joint_measurement_index sample_module velocity = 0"
proof -
  have empty: "encoder unsampled_module k = []" for k
    by (simp add: module_defs)
  have sampled: "encoder sample_module velocity = [(0, Finite (1 / 4))]"
    by (simp add: module_defs)
  show ?thesis
    using empty_history_signals [OF exact_fpu_nan_propagating, of unsampled_module]
      empty_history_signals [OF exact_fpu_nan_propagating, of sample_module]
    by (simp add: exact_fpu_nan_propagating empty sampled newest_timeindex_def)
qed

section \<open>The limit table\<close>

text \<open>
  Claim C4, as the code has it. \<^verbatim>\<open>get_limit(kind)\<close>, called with the lock free, on a
  module whose limit table has no entry for the kind leaves by \<^verbatim>\<open>std::out_of_range\<close>
  and returns no limit; for a kind that has an entry it returns the stored limit. The
  pair \<open>{lowest, highest}\<close> is what a default-constructed \<^verbatim>\<open>JointLimit\<close> holds.
\<close>

theorem get_limit_stored_or_out_of_range:
  assumes "\<not> limit_door m"
  shows "(limits m k = None \<longrightarrow> (\<exists>m'. get_limit k m = Throws out_of_range m')) \<and>
         (\<forall>l. limits m k = Some l \<longrightarrow> (\<exists>m'. get_limit k m = Returns l m')) \<and>
         min_limit JointLimit_default = double_lowest \<and>
         max_limit JointLimit_default = double_max"
  using assms by (simp add: get_limit_def lock_free JointLimit_default_def)

theorem get_limit_stored_or_out_of_range_witness:
  "\<not> limit_door limited_module \<and> limits limited_module velocity = None \<and>
   (\<exists>m'. get_limit velocity limited_module = Throws out_of_range m') \<and>
   limits limited_module position = Some \<lparr>min_limit = Finite 0, max_limit = Finite 1\<rparr> \<and>
   (\<exists>m'. get_limit position limited_module =
           Returns \<lparr>min_limit = Finite 0, max_limit = Finite 1\<rparr> m')"
proof -
  have free: "\<not> limit_door limited_module"
    by (simp add: module_defs)
  have tbl: "limits limited_module velocity = None"
    "limits limited_module position = Some \<lparr>min_limit = Finite 0, max_limit = Finite 1\<rparr>"
    by (simp_all add: module_defs)
  show ?thesis
    using get_limit_stored_or_out_of_range [OF free, of velocity]
      get_limit_stored_or_out_of_range [OF free, of position]
    by (simp add: free tbl)
qed

text \<open>
  Claim C4 as stated fails: on a module that has no velocity limit,
  \<^verbatim>\<open>get_limit(velocity)\<close> throws instead of returning the default limit.
\<close>

theorem get_limit_unset_counterexample:
  "get_limit velocity sample_module = Throws out_of_range (sample_module\<lparr>limit_door := True\<rparr>)"
  by (simp add: get_limit_def lock_def module_defs)

text \<open>
  Claim C6 fails on the code. For a limit on the index angle the \<^verbatim>\<open>switch\<close> takes its
  \<^verbatim>\<open>default\<close> branch, and the value checked is the constant 0, not the calibrated
  index angle: with the limit \<open>[1, 2)\<close> and the index angle 1.5, the limit holds of the
  calibrated value, yet \<^verbatim>\<open>check_limits()\<close> returns false.
\<close>

theorem check_limits_index_limit_checks_zero:
  "get_measured_index_angle exact_fpu index_limited_module = Finite (3 / 2) \<and>
   limits index_limited_module encoder_index =
     Some \<lparr>min_limit = Finite 1, max_limit = Finite 2\<rparr> \<and>
   all_limits_satisfied exact_fpu index_limited_module \<and>
   switch_meassurement exact_fpu index_limited_module encoder_index = Finite 0 \<and>
   check_limits exact_fpu index_limited_module = Returns False index_limited_module"
proof -
  have free: "\<not> limit_door index_limited_module"
    by (simp add: module_defs)
  have tbl: "limits index_limited_module position = None"
    "limits index_limited_module velocity = None"
    "limits index_limited_module acceleration = None"
    "limits index_limited_module encoder_index =
       Some \<lparr>min_limit = Finite 1, max_limit = Finite 2\<rparr>"
    by (simp_all add: module_defs)
  have angle: "get_measured_index_angle exact_fpu index_limited_module = Finite (3 / 2)"
    by (simp add: module_defs getter_defs exact_defs)
  have sat: "all_limits_satisfied exact_fpu index_limited_module"
    by (simp add: all_limits_satisfied_def limit_satisfied_def tbl calibrated_value_def angle)
  have zero: "switch_meassurement exact_fpu index_limited_module encoder_index = Finite 0"
    by (simp add: switch_meassurement_def)
  have "check_limits exact_fpu index_limited_module = Returns False index_limited_module"
    by (simp add: check_limits_returns [OF free] entry_check_def tbl entry_ok_def zero
        in_range_def)
  then show ?thesis
    using angle tbl sat zero by simp
qed

text \<open>
  Claim C7 fails on the code for \<^verbatim>\<open>get_limit\<close>: the \<^verbatim>\<open>unlock\<close> stands after the
  \<^verbatim>\<open>return\<close>, so the call returns with the lock held, and the next call that takes
  the lock never returns.
\<close>

theorem get_limit_keeps_lock:
  "get_limit position limited_module =
     Returns \<lparr>min_limit = Finite 0, max_limit = Finite 1\<rparr>
       (limited_module\<lparr>limit_door := True\<rparr>) \<and>
   limit_door (limited_module\<lparr>limit_door := True\<rparr>) \<and>
   check_limits exact_fpu (limited_module\<lparr>limit_door := True\<rparr>) = Blocks"
  by (simp add: get_limit_def check_limits_def lock_def module_defs)

lemma get_limit_lock_held:
  "get_limit k m = Returns l m' \<or> get_limit k m = Throws e m' \<Longrightarrow> limit_door m'"
  by (auto simp: get_limit_def lock_def split: if_splits option.splits)

lemma set_limit_releases: "set_limit k l m = Returns u m' \<Longrightarrow> \<not> limit_door m'"
  by (auto simp: set_limit_def lock_def unlock_def Let_def split: if_splits)

lemma check_limits_releases: "check_limits ops m = Returns b m' \<Longrightarrow> \<not> limit_door m'"
  by (auto simp: check_limits_def lock_def unlock_def Let_def split: if_splits)



section \<open>The batch operations of the registry\<close>

lemma Contains_iff: "Contains Vec Element \<longleftrightarrow> Element \<in> set Vec"
  by (simp add: Contains_def)

lemma getJointDataSerialized_loop_result:
  "getJointDataSerialized_loop self f js data =
     (if js = [] \<or> (is_initialized self \<and> (\<forall>j\<in>set js. j \<in> set (read_joint_indexing self)))
      then Some (data @ map f js) else None)"
  by (induction js arbitrary: data) (simp_all add: Contains_iff)

lemma getJointDataSerialized_result:
  "getJointDataSerialized self monopod joint_indexes f =
     (let js = effective_indexes (read_joint_indexing monopod) joint_indexes in
      if js = [] \<or> (is_initialized self \<and> (\<forall>j\<in>set js. j \<in> set (read_joint_indexing self)))
      then Some (map f js) else None)"
  by (simp add: getJointDataSerialized_def getJointDataSerialized_loop_result
      effective_indexes_def Let_def)

text \<open>
  What \<^verbatim>\<open>getJointDataSerialized\<close> does on the lists that make its loop run. The
  list it iterates is the requested one, or \<open>read_joint_indexing\<close> when the requested
  list is empty. If that list is not empty and the system is uninitialized, or if any
  index of it is not in the readable set, the whole result is absent; if the system is
  initialized and every index is readable, the result is the sequence of the data in the
  order of the list; and an empty index list gives the same result as the list
  \<open>read_joint_indexing\<close>.
\<close>

lemma getJointDataSerialized_all_or_nothing:
  "((\<not> is_initialized self \<and>
       effective_indexes (read_joint_indexing monopod) joint_indexes \<noteq> []) \<or>
    (\<exists>j\<in>set (effective_indexes (read_joint_indexing monopod) joint_indexes).
        j \<notin> set (read_joint_indexing self))
    \<longrightarrow> getJointDataSerialized self monopod joint_indexes f = None) \<and>
   (is_initialized self \<and>
    (\<forall>j\<in>set (effective_indexes (read_joint_indexing monopod) joint_indexes).
        j \<in> set (read_joint_indexing self))
    \<longrightarrow> getJointDataSerialized self monopod joint_indexes f =
        Some (map f (effective_indexes (read_joint_indexing monopod) joint_indexes))) \<and>
   getJointDataSerialized self monopod [] f =
     getJointDataSerialized self monopod (read_joint_indexing monopod) f"
proof -
  have "getJointDataSerialized self monopod [] f =
      getJointDataSerialized self monopod (read_joint_indexing monopod) f"
    by (simp add: getJointDataSerialized_def)
  then show ?thesis
    by (auto simp: getJointDataSerialized_result Let_def)
qed

lemma getJointDataSerialized_all_or_nothing_examples:
  "getJointDataSerialized two_joint_monopod two_joint_monopod [0, 5] (\<lambda>j. Finite (of_int j)) = None \<and>
   getJointDataSerialized fresh_monopod fresh_monopod [0] (\<lambda>j. Finite (of_int j)) = None \<and>
   getJointDataSerialized two_joint_monopod two_joint_monopod [1, 0] (\<lambda>j. Finite (of_int j)) =
     Some [Finite 1, Finite 0] \<and>
   getJointDataSerialized two_joint_monopod two_joint_monopod [] (\<lambda>j. Finite (of_int j)) =
     getJointDataSerialized two_joint_monopod two_joint_monopod [0, 1] (\<lambda>j. Finite (of_int j))"
  using
    getJointDataSerialized_all_or_nothing
      [of two_joint_monopod two_joint_monopod "[0, 5]" "\<lambda>j. Finite (of_int j)"]
    getJointDataSerialized_all_or_nothing
      [of fresh_monopod fresh_monopod "[0]" "\<lambda>j. Finite (of_int j)"]
    getJointDataSerialized_all_or_nothing
      [of two_joint_monopod two_joint_monopod "[1, 0]" "\<lambda>j. Finite (of_int j)"]
    getJointDataSerialized_all_or_nothing
      [of two_joint_monopod two_joint_monopod "[]" "\<lambda>j. Finite (of_int j)"]
  by (simp add: monopod_defs effective_indexes_def)

text \<open>
  Claim C3 fails on the code. \<^verbatim>\<open>getJointDataSerialized\<close> tests
  \<^verbatim>\<open>is_initialized\<close> inside its loop, once per index, so the test is never made
  when the list to iterate is empty. On a registry that is not initialized and whose
  \<open>read_joint_indexing\<close> is still empty, a call with an explicit index list returns
  \<^verbatim>\<open>std::nullopt\<close>, as the claim says, but the call with the default (empty) index
  list returns a present, empty sequence.
\<close>

theorem getJointDataSerialized_uninitialized_default_list:
  "\<not> is_initialized fresh_monopod \<and>
   read_joint_indexing fresh_monopod = [] \<and>
   getJointDataSerialized fresh_monopod fresh_monopod [0] (\<lambda>j. NaN) = None \<and>
   getJointDataSerialized fresh_monopod fresh_monopod [] (\<lambda>j. NaN) = Some []"
  by (simp add: getJointDataSerialized_def Contains_def monopod_defs)

text \<open>
  Claim C8. If the system is uninitialized or an addressed joint index is not in the
  controllable set, \<^verbatim>\<open>set_torque_target\<close> and \<^verbatim>\<open>set_torque_targets\<close> return false
  and leave every command slot as it was.
\<close>

theorem set_torque_targets_all_or_nothing:
  "(\<not> is_initialized self \<or> \<not> is_joint_controllable self joint_index
    \<longrightarrow> set_torque_target torque_target joint_index self = (False, self)) \<and>
   (\<not> is_initialized self \<or>
    (\<exists>j\<in>set (effective_indexes (write_joint_indexing self) joint_indexes).
        \<not> is_joint_controllable self j)
    \<longrightarrow> set_torque_targets torque_targets joint_indexes self = (False, self))"
  by (auto simp: set_torque_target_def set_torque_targets_def effective_indexes_def
      list_all_iff Let_def)

theorem set_torque_targets_all_or_nothing_witness:
  "\<not> is_joint_controllable two_joint_monopod 1 \<and>
   set_torque_target (Finite 1) 1 two_joint_monopod = (False, two_joint_monopod) \<and>
   set_torque_targets [Finite 1, Finite 1] [0, 1] two_joint_monopod =
     (False, two_joint_monopod) \<and>
   \<not> is_initialized fresh_monopod \<and>
   set_torque_targets [] [] fresh_monopod = (False, fresh_monopod)"
proof -
  have nc: "\<not> is_joint_controllable two_joint_monopod 1"
    by (simp add: is_joint_controllable_def Contains_iff monopod_defs)
  have uninit: "\<not> is_initialized fresh_monopod"
    by (simp add: monopod_defs)
  show ?thesis
    using
      set_torque_targets_all_or_nothing
        [where self = two_joint_monopod and joint_index = 1 and joint_indexes = "[0, 1]"
           and torque_target = "Finite 1" and torque_targets = "[Finite 1, Finite 1]"]
      set_torque_targets_all_or_nothing
        [where self = fresh_monopod and joint_index = 0 and joint_indexes = "[]"
           and torque_target = "Finite 1" and torque_targets = "[]"]
    by (simp add: nc uninit effective_indexes_def)
qed

end
